theory Spec2Isabelle
  imports Main "HOL-Library.Multiset" "HOL-Library.Option_ord" "HOL-Library.Sublist"
begin

section \<open>Time values and the calendar\<close>

text \<open>
  A JavaScript \<open>Date\<close> is either invalid or holds a time value: the milliseconds
  since 1970-01-01T00:00:00.000Z, an integer of at most 8.64e15 in absolute value.
  The controllers work on dates through \<open>dayjs\<close> (local time of the host) and through
  MongoDB's date operators (UTC).
\<close>

datatype jsdate = ValidDate int | InvalidDate

definition msPerDay :: int where
  "msPerDay = 86400000"

definition Day :: "int \<Rightarrow> int" where
  "Day t = t div msPerDay"


text \<open>
  The time zone of the host is a parameter, given by its rules: the offset of local
  time from UTC (in milliseconds) that is in force at an instant, and the offset by
  which the runtime reads a local time value. The two differ around a change of
  offset, where a local time occurs twice or not at all and the runtime settles on one
  reading. Nothing is assumed of either function.
\<close>

record zone =
  utc_offset :: "int \<Rightarrow> int"
  local_offset :: "int \<Rightarrow> int"

definition LocalTime :: "zone \<Rightarrow> int \<Rightarrow> int" where
  "LocalTime z t = t + utc_offset z t"

definition UTC :: "zone \<Rightarrow> int \<Rightarrow> int" where
  "UTC z t = t - local_offset z t"

definition MakeTime :: "int \<Rightarrow> int \<Rightarrow> int \<Rightarrow> int \<Rightarrow> int" where
  "MakeTime h m s ms = h * 3600000 + m * 60000 + s * 1000 + ms"

definition MakeDate :: "int \<Rightarrow> int \<Rightarrow> int" where
  "MakeDate day time = day * msPerDay + time"

definition TimeClip :: "int \<Rightarrow> jsdate" where
  "TimeClip t = (if \<bar>t\<bar> \<le> 8640000000000000 then ValidDate t else InvalidDate)"

text \<open>
  The proleptic Gregorian calendar on day numbers (days since 1970-01-01), computed
  era by era (an era is 400 years, 146097 days, starting on a 1 March).
  \<open>civil_from_days\<close> gives (year, month 1..12, day of month 1..31).
\<close>

definition year_start :: "int \<Rightarrow> int" where
  \<comment> \<open>the days of an era that lie before its year \<open>y\<close> (years begin on 1 March)\<close>
  "year_start y = 365 * y + y div 4 - y div 100"

definition year_of_era :: "int \<Rightarrow> int" where
  "year_of_era doe = (doe - doe div 1460 + doe div 36524 - doe div 146096) div 365"

definition civil_from_days :: "int \<Rightarrow> int \<times> int \<times> int" where
  "civil_from_days z0 =
     (let z = z0 + 719468;
          era = z div 146097;
          doe = z - era * 146097;
          yoe = year_of_era doe;
          y = yoe + era * 400;
          doy = doe - year_start yoe;
          mp = (5 * doy + 2) div 153;
          d = doy - (153 * mp + 2) div 5 + 1;
          m = (if mp < 10 then mp + 3 else mp - 9)
      in (if m \<le> 2 then y + 1 else y, m, d))"

definition days_from_civil :: "int \<Rightarrow> int \<Rightarrow> int \<Rightarrow> int" where
  "days_from_civil y0 m d =
     (let y = (if m \<le> 2 then y0 - 1 else y0);
          era = y div 400;
          yoe = y - era * 400;
          doy = (153 * (if m > 2 then m - 3 else m + 9) + 2) div 5 + d - 1;
          doe = year_start yoe + doy
      in era * 146097 + doe - 719468)"

definition YearFromTime :: "int \<Rightarrow> int" where
  "YearFromTime t = fst (civil_from_days (Day t))"

definition MonthFromTime :: "int \<Rightarrow> int" where
  \<comment> \<open>0 = January, as in JavaScript\<close>
  "MonthFromTime t = fst (snd (civil_from_days (Day t))) - 1"

definition DateFromTime :: "int \<Rightarrow> int" where
  "DateFromTime t = snd (snd (civil_from_days (Day t)))"

definition MakeDay :: "int \<Rightarrow> int \<Rightarrow> int \<Rightarrow> int" where
  \<comment> \<open>month is 0-based and may overflow into the next years; date may be 0 or negative\<close>
  "MakeDay year month date =
     days_from_civil (year + month div 12) (month mod 12 + 1) 1 + date - 1"

subsection \<open>The \<open>Date\<close> methods that dayjs calls\<close>

text \<open>The getters are used on the validated date only, whose time value is \<open>t\<close>.\<close>

definition getFullYear :: "zone \<Rightarrow> int \<Rightarrow> int" where
  "getFullYear z t = YearFromTime (LocalTime z t)"

definition getMonth :: "zone \<Rightarrow> int \<Rightarrow> int" where
  "getMonth z t = MonthFromTime (LocalTime z t)"

definition getDate :: "zone \<Rightarrow> int \<Rightarrow> int" where
  "getDate z t = DateFromTime (LocalTime z t)"

fun setHours :: "zone \<Rightarrow> jsdate \<Rightarrow> int \<Rightarrow> int \<Rightarrow> int \<Rightarrow> int \<Rightarrow> jsdate" where
  "setHours z InvalidDate h m s ms = InvalidDate"
| "setHours z (ValidDate t) h m s ms =
     TimeClip (UTC z (MakeDate (Day (LocalTime z t)) (MakeTime h m s ms)))"

definition newDate_ymd :: "zone \<Rightarrow> int \<Rightarrow> int \<Rightarrow> int \<Rightarrow> jsdate" where
  \<comment> \<open>\<open>new Date(y, m, d)\<close>: local midnight; a year 0..99 means 1900 + year\<close>
  "newDate_ymd z y m d =
     (let yr = (if 0 \<le> y \<and> y \<le> 99 then 1900 + y else y)
      in TimeClip (UTC z (MakeDate (MakeDay yr m d) (MakeTime 0 0 0 0))))"

subsection \<open>dayjs\<close>

datatype unit_of_time = D | M

definition instanceFactorySet :: "zone \<Rightarrow> bool \<Rightarrow> jsdate \<Rightarrow> jsdate" where
  "instanceFactorySet z isStartOf date =
     (if isStartOf then setHours z date 0 0 0 0 else setHours z date 23 59 59 999)"

definition instanceFactory :: "zone \<Rightarrow> bool \<Rightarrow> int \<Rightarrow> int \<Rightarrow> int \<Rightarrow> jsdate" where
  "instanceFactory z isStartOf t d m =
     (let ins = newDate_ymd z (getFullYear z t) m d
      in if isStartOf then ins else instanceFactorySet z False ins)"

fun startOf_flag :: "zone \<Rightarrow> unit_of_time \<Rightarrow> bool \<Rightarrow> int \<Rightarrow> jsdate" where
  "startOf_flag z M isStartOf t =
     (if isStartOf then instanceFactory z isStartOf t 1 (getMonth z t)
      else instanceFactory z isStartOf t 0 (getMonth z t + 1))"
| "startOf_flag z D isStartOf t = instanceFactorySet z isStartOf (ValidDate t)"

definition startOf :: "zone \<Rightarrow> unit_of_time \<Rightarrow> int \<Rightarrow> jsdate" where
  "startOf z u t = startOf_flag z u True t"

definition endOf :: "zone \<Rightarrow> unit_of_time \<Rightarrow> int \<Rightarrow> jsdate" where
  "endOf z u t = startOf_flag z u False t"

definition isBefore :: "int \<Rightarrow> int \<Rightarrow> bool" where
  \<comment> \<open>\<open>a.isBefore(b)\<close> without a unit compares the time values\<close>
  "isBefore a b \<longleftrightarrow> a < b"

section \<open>Input validation\<close>

text \<open>
  \<open>z.coerce.date()\<close> first builds \<open>new Date(v)\<close> from the raw field \<open>v\<close> and then
  rejects an invalid date. A raw field is represented by the date that the JavaScript
  runtime builds from it: \<open>ValidDate t\<close> with its time value, or \<open>InvalidDate\<close>
  (a missing field, a string that is not a date, ...).

  \<open>z.object\<close> looks at the fields only when the value it is given is an object.
  The query of a request always is one; the body need not be (no body, or a JSON
  array), and is then rejected as a whole, by one issue whose path is empty.
\<close>

datatype zod_issue = ZodIssue (path: "string list") (issue_message: string)

fun coerce_date :: "string \<Rightarrow> jsdate \<Rightarrow> zod_issue list + int" where
  "coerce_date name (ValidDate t) = Inr t"
| "coerce_date name InvalidDate = Inl [ZodIssue [name] ''Invalid date'']"

record store_body =
  body_timeFrom :: jsdate
  body_timeTo :: jsdate

datatype received = RUndefined | RNull | RArray | RString | RNumber | RBoolean

datatype request_body = NotAnObject received | Fields store_body

fun received_name :: "received \<Rightarrow> string" where
  "received_name RUndefined = ''undefined''"
| "received_name RNull = ''null''"
| "received_name RArray = ''array''"
| "received_name RString = ''string''"
| "received_name RNumber = ''number''"
| "received_name RBoolean = ''boolean''"

definition invalid_type_message :: "received \<Rightarrow> string" where
  "invalid_type_message r =
     (if r = RUndefined then ''Required'' else ''Expected object, received '' @ received_name r)"

fun store_schema :: "request_body \<Rightarrow> zod_issue list + (int \<times> int)" where
  \<comment> \<open>an object schema rejects what is not an object; of an object it checks every
      key of its shape, in order, and collects the issues\<close>
  "store_schema (NotAnObject r) = Inl [ZodIssue [] (invalid_type_message r)]"
| "store_schema (Fields b) =
     (case (coerce_date ''timeFrom'' (body_timeFrom b), coerce_date ''timeTo'' (body_timeTo b)) of
        (Inr tf, Inr tt) \<Rightarrow> Inr (tf, tt)
      | (Inl e1, Inr tt) \<Rightarrow> Inl e1
      | (Inr tf, Inl e2) \<Rightarrow> Inl e2
      | (Inl e1, Inl e2) \<Rightarrow> Inl (e1 @ e2))"

definition date_schema :: "jsdate \<Rightarrow> zod_issue list + int" where
  "date_schema q = coerce_date ''date'' q"

record field_issue =
  field :: string
  message :: string

fun join_path :: "string list \<Rightarrow> string" where
  "join_path [] = ''''"
| "join_path [p] = p"
| "join_path (p # ps) = p @ ''.'' @ join_path ps"

definition ErrorMessageValidation :: "zod_issue list \<Rightarrow> field_issue list" where
  \<comment> \<open>Modelled from the spec: \<open>utils/errorMessageValidation\<close> is not among the sources;
      the spec has it return the ordered list of \<open>{field, message}\<close> issues.\<close>
  "ErrorMessageValidation issues =
     map (\<lambda>i. \<lparr>field = join_path (path i), message = issue_message i\<rparr>) issues"

section \<open>The record store\<close>

record FocusTime =
  doc_id :: nat
  timeFrom :: int
  timeTo :: int
  userId :: string

type_synonym collection = "FocusTime list"

definition FocusTimeModel_create ::
    "collection \<Rightarrow> int \<Rightarrow> int \<Rightarrow> string \<Rightarrow> FocusTime \<times> collection" where
  \<comment> \<open>Modelled from the spec: \<open>models/focus-time-model\<close> is not among the sources; the
      spec has a record of \<open>timeFrom\<close>, \<open>timeTo\<close>, \<open>userId\<close>, and \<open>create\<close> return the
      stored record with a generated identifier.\<close>
  "FocusTimeModel_create db tf tt uid =
     (let doc = \<lparr>doc_id = length db, timeFrom = tf, timeTo = tt, userId = uid\<rparr>
      in (doc, db @ [doc]))"

fun FocusTimeModel_find :: "collection \<Rightarrow> jsdate \<Rightarrow> jsdate \<Rightarrow> string \<Rightarrow> FocusTime list option" where
  \<comment> \<open>Modelled from the spec: \<open>models/focus-time-model\<close> is not among the sources; the
      spec has \<open>timeFrom\<close> a timestamp. The filter is \<open>{timeFrom: {$gte, $lte}, userId}\<close>.
      Mongoose casts the bounds of a filter to the type of the field and does not accept
      an Invalid Date as a date: the query then fails with a CastError (\<open>None\<close>).\<close>
  "FocusTimeModel_find db (ValidDate lo) (ValidDate hi) uid =
     Some (filter (\<lambda>r. lo \<le> timeFrom r \<and> timeFrom r \<le> hi \<and> userId r = uid) db)"
| "FocusTimeModel_find db lo hi uid = None"

subsection \<open>The aggregation pipeline\<close>

fun bson_date :: "jsdate \<Rightarrow> int" where
  \<comment> \<open>a pipeline is sent as it is written; the driver encodes a date by its time
      value, and \<open>NaN\<close> as 0\<close>
  "bson_date (ValidDate t) = t"
| "bson_date InvalidDate = 0"

definition match :: "collection \<Rightarrow> jsdate \<Rightarrow> jsdate \<Rightarrow> string \<Rightarrow> FocusTime list" where
  \<comment> \<open>\<open>$match\<close> with \<open>{timeFrom: {$gte, $lte}, userId}\<close>\<close>
  "match db lo hi uid =
     filter (\<lambda>r. bson_date lo \<le> timeFrom r \<and> timeFrom r \<le> bson_date hi \<and> userId r = uid) db"

record projected =
  year :: int
  month :: int
  day :: int

definition project :: "FocusTime \<Rightarrow> projected" where
  \<comment> \<open>\<open>$year\<close>, \<open>$month\<close>, \<open>$dayOfMonth\<close> read the date in UTC; months count from 1\<close>
  "project r = \<lparr>year = YearFromTime (timeFrom r),
                month = MonthFromTime (timeFrom r) + 1,
                day = DateFromTime (timeFrom r)\<rparr>"

record bucket =
  key :: "int list"
  count :: nat

fun group_add :: "int list \<Rightarrow> bucket list \<Rightarrow> bucket list" where
  "group_add k [] = [\<lparr>key = k, count = 1\<rparr>]"
| "group_add k (b # bs) =
     (if key b = k then b\<lparr>count := count b + 1\<rparr> # bs else b # group_add k bs)"

definition group :: "projected list \<Rightarrow> bucket list" where
  \<comment> \<open>\<open>$group\<close> with \<open>_id: [$year, $month, $day]\<close> and \<open>count: {$sum: 1}\<close>; the groups
      are emitted here in the order of their first document\<close>
  "group ps = foldl (\<lambda>acc p. group_add [year p, month p, day p] acc) [] ps"

fun asc_sort_key :: "int list \<Rightarrow> int option" where
  \<comment> \<open>where an ascending sort places a field that holds an array: MongoDB compares
      the smallest element of the array, not the array as a sequence\<close>
  "asc_sort_key [] = None"
| "asc_sort_key (x # xs) = Some (fold min xs x)"

definition sort_by_id :: "bucket list \<Rightarrow> bucket list" where
  \<comment> \<open>\<open>$sort: {_id: 1}\<close>\<close>
  "sort_by_id bs = sort_key (\<lambda>b. asc_sort_key (key b)) bs"

section \<open>The focus-time controller\<close>

datatype payload =
    Issues "field_issue list"
  | Message string
  | Created FocusTime
  | Records "FocusTime list"
  | Metrics "bucket list"

record response =
  status :: nat
  json :: payload

definition store :: "collection \<Rightarrow> string \<Rightarrow> request_body \<Rightarrow> response \<times> collection" where
  "store db user_id body =
     (case store_schema body of
        Inl issues \<Rightarrow>
          (\<lparr>status = 422, json = Issues (ErrorMessageValidation issues)\<rparr>, db)
      | Inr (tf, tt) \<Rightarrow>
          (let isTimeToBeforeTimeFrom = isBefore tt tf
           in if isTimeToBeforeTimeFrom
              then (\<lparr>status = 400, json = Message ''timeFrom always has to be before timeTo''\<rparr>, db)
              else (let (createdFocusTime, db') = FocusTimeModel_create db tf tt user_id
                    in (\<lparr>status = 201, json = Created createdFocusTime\<rparr>, db'))))"

text \<open>
  \<open>index\<close> awaits the query and has no \<open>catch\<close>: when the query fails, the handler
  is left by the exception and sends no response (\<open>None\<close>).
\<close>

definition index :: "zone \<Rightarrow> collection \<Rightarrow> string \<Rightarrow> jsdate \<Rightarrow> response option" where
  "index z db user_id query_date =
     (case date_schema query_date of
        Inl issues \<Rightarrow> Some \<lparr>status = 422, json = Issues (ErrorMessageValidation issues)\<rparr>
      | Inr date \<Rightarrow>
          (let startDate = startOf z D date;
               endDate = endOf z D date
           in case FocusTimeModel_find db startDate endDate user_id of
                None \<Rightarrow> None
              | Some found \<Rightarrow>
                  (let focusTimes = sort_key timeFrom found
                   in Some \<lparr>status = 200, json = Records focusTimes\<rparr>)))"

definition metricsByMonth :: "zone \<Rightarrow> collection \<Rightarrow> string \<Rightarrow> jsdate \<Rightarrow> response" where
  "metricsByMonth z db user_id query_date =
     (case date_schema query_date of
        Inl issues \<Rightarrow> \<lparr>status = 422, json = Issues (ErrorMessageValidation issues)\<rparr>
      | Inr date \<Rightarrow>
          (let startDate = startOf z M date;
               endDate = endOf z M date;
               focusTimesMetrics =
                 sort_by_id (group (map project (match db startDate endDate user_id)))
           in \<lparr>status = 200, json = Metrics focusTimesMetrics\<rparr>))"

subsection \<open>The focus-time routes\<close>

text \<open>
  The routes of \<open>routes.ts\<close> that reach the focus-time controller, after the
  authentication middleware has put the caller's id into the request. Only
  \<open>POST /focus-time\<close> hands a new collection back.
\<close>

datatype focus_request =
    PostFocusTime string request_body
  | GetFocusTime string jsdate
  | GetFocusTimeMetrics string jsdate

fun route :: "zone \<Rightarrow> collection \<Rightarrow> focus_request \<Rightarrow> response option \<times> collection" where
  "route z db (PostFocusTime user_id body) = (Some (fst (store db user_id body)), snd (store db user_id body))"
| "route z db (GetFocusTime user_id q) = (index z db user_id q, db)"
| "route z db (GetFocusTimeMetrics user_id q) = (Some (metricsByMonth z db user_id q), db)"

fun serve :: "zone \<Rightarrow> collection \<Rightarrow> focus_request list \<Rightarrow> collection" where
  "serve z db [] = db"
| "serve z db (rq # rqs) = serve z (snd (route z db rq)) rqs"

section \<open>The authentication controller\<close>

text \<open>
  The payloads of the identity provider are JSON values; only the shapes that the
  handler tells apart are kept. \<open>axios\<close> and \<open>jwt.sign\<close> are parameters: a call
  either returns or throws (\<open>None\<close> for \<open>jwt.sign\<close>), and the handler's \<open>catch\<close>
  tells an axios error (with the provider's response, when there is one) from any
  other exception.
\<close>

datatype json_value =
    JUndefined
  | JNull
  | JString string
  | JObject "(string \<times> json_value) list"

datatype failure = AxiosError "json_value option" | OtherError

record env =
  clientId :: "string option"
  clientSecret :: "string option"
  jwtSecret :: "string option"
  expiresIn :: "string option"

record http_client =
  axios_post :: "string \<Rightarrow> (string \<times> json_value) list \<Rightarrow> (string \<times> string) list \<Rightarrow> failure + json_value"
  axios_get :: "string \<Rightarrow> (string \<times> string) list \<Rightarrow> failure + json_value"

type_synonym jwt_sign = "json_value \<Rightarrow> string \<Rightarrow> string option \<Rightarrow> string option"

fun env_value :: "string option \<Rightarrow> json_value" where
  "env_value None = JUndefined"
| "env_value (Some s) = JString s"

fun to_string :: "json_value \<Rightarrow> string" where
  \<comment> \<open>\<open>String(v)\<close>, also what a template literal inserts\<close>
  "to_string JUndefined = ''undefined''"
| "to_string JNull = ''null''"
| "to_string (JString s) = s"
| "to_string (JObject kvs) = ''[object Object]''"

fun get_prop :: "json_value \<Rightarrow> string \<Rightarrow> failure + json_value" where
  \<comment> \<open>\<open>v.name\<close>: a TypeError on undefined and null, undefined for a missing property\<close>
  "get_prop JUndefined name = Inl OtherError"
| "get_prop JNull name = Inl OtherError"
| "get_prop (JString s) name = Inr JUndefined"
| "get_prop (JObject kvs) name =
     Inr (case map_of kvs name of None \<Rightarrow> JUndefined | Some v \<Rightarrow> v)"

record auth_response =
  auth_status :: nat
  auth_json :: json_value

definition auth :: "env \<Rightarrow> auth_response" where
  "auth e =
     (let redirectUrl = ''https://github.com/login/oauth/authorize?client_id=''
                          @ to_string (env_value (clientId e))
      in \<lparr>auth_status = 200, auth_json = JObject [(''redirectUrl'', JString redirectUrl)]\<rparr>)"

text \<open>
  The \<open>try\<close> block: its result, or the exception that left it, together with the URLs
  that were requested on the way, in order.
\<close>

definition authCallback_try ::
    "env \<Rightarrow> http_client \<Rightarrow> jwt_sign \<Rightarrow> json_value \<Rightarrow> (failure + json_value) \<times> string list" where
  "authCallback_try e client sign code =
     (let tokenUrl = ''htpps://github.com/login/oauth/access_token'';
          userUrl = ''https://api.github.com/user''
      in case axios_post client tokenUrl
                [(''client_id'', env_value (clientId e)),
                 (''client_secret'', env_value (clientSecret e)),
                 (''code'', code)]
                [(''Accept'', ''application/json'')] of
           Inl err \<Rightarrow> (Inl err, [tokenUrl])
         | Inr accessTokenResult_data \<Rightarrow>
       (case get_prop accessTokenResult_data ''access_token'' of
           Inl err \<Rightarrow> (Inl err, [tokenUrl])
         | Inr access_token \<Rightarrow>
       (case axios_get client userUrl
                [(''Authorization'', ''Bearer '' @ to_string access_token)] of
           Inl err \<Rightarrow> (Inl err, [tokenUrl, userUrl])
         | Inr userDataResult_data \<Rightarrow>
       (case get_prop userDataResult_data ''node_id'' of
           Inl err \<Rightarrow> (Inl err, [tokenUrl, userUrl])
         | Inr node_id \<Rightarrow>
       (case get_prop userDataResult_data ''avatar_url'' of
           Inl err \<Rightarrow> (Inl err, [tokenUrl, userUrl])
         | Inr avatarUrl \<Rightarrow>
       (case get_prop userDataResult_data ''name'' of
           Inl err \<Rightarrow> (Inl err, [tokenUrl, userUrl])
         | Inr name \<Rightarrow>
       (case sign (JObject [(''id'', node_id)]) (to_string (env_value (jwtSecret e))) (expiresIn e) of
           None \<Rightarrow> (Inl OtherError, [tokenUrl, userUrl])
         | Some token \<Rightarrow>
             (Inr (JObject [(''id'', node_id), (''avatarUrl'', avatarUrl), (''name'', name),
                            (''token'', JString token)]),
              [tokenUrl, userUrl]))))))))"

fun isAxiosError :: "failure \<Rightarrow> bool" where
  "isAxiosError (AxiosError r) = True"
| "isAxiosError OtherError = False"

fun response_data :: "failure \<Rightarrow> json_value" where
  \<comment> \<open>\<open>err.response?.data\<close>\<close>
  "response_data (AxiosError None) = JUndefined"
| "response_data (AxiosError (Some d)) = d"
| "response_data OtherError = JUndefined"

definition authCallback ::
    "env \<Rightarrow> http_client \<Rightarrow> jwt_sign \<Rightarrow> json_value \<Rightarrow> auth_response \<times> string list" where
  "authCallback e client sign code =
     (case authCallback_try e client sign code of
        (Inr body, urls) \<Rightarrow> (\<lparr>auth_status = 200, auth_json = body\<rparr>, urls)
      | (Inl err, urls) \<Rightarrow>
          (if isAxiosError err
           then (\<lparr>auth_status = 400, auth_json = response_data err\<rparr>, urls)
           else (\<lparr>auth_status = 500,
                  auth_json = JObject [(''message'', JString ''There something wrong.'')]\<rparr>, urls)))"

section \<open>Notions that the properties are stated with\<close>

text \<open>
  Two instants fall in the same calendar day (month) of the host when their local
  year, month and day of month (year and month) agree.
\<close>

definition same_local_day :: "zone \<Rightarrow> int \<Rightarrow> int \<Rightarrow> bool" where
  "same_local_day z a b \<longleftrightarrow>
     getFullYear z a = getFullYear z b \<and> getMonth z a = getMonth z b
     \<and> getDate z a = getDate z b"

definition same_local_month :: "zone \<Rightarrow> int \<Rightarrow> int \<Rightarrow> bool" where
  "same_local_month z a b \<longleftrightarrow>
     getFullYear z a = getFullYear z b \<and> getMonth z a = getMonth z b"

text \<open>
  Two hosts for the examples. One keeps a constant offset. The other follows the rules
  of New York in 2024: five hours behind UTC, four from 2024-03-10T07:00Z (local
  02:00, which becomes 03:00) until 2024-11-03T06:00Z (local 02:00, which becomes
  01:00); a local time that is skipped or repeated is read with the offset in force
  before the change.
\<close>

definition fixed_zone :: "int \<Rightarrow> zone" where
  "fixed_zone c = \<lparr>utc_offset = (\<lambda>t. c), local_offset = (\<lambda>t. c)\<rparr>"

definition new_york_2024 :: zone where
  "new_york_2024 =
     \<lparr>utc_offset = (\<lambda>t. if 1710054000000 \<le> t \<and> t < 1730613600000 then - 14400000 else - 18000000),
      local_offset = (\<lambda>t. if 1710039600000 \<le> t \<and> t < 1730599200000 then - 14400000 else - 18000000)\<rparr>"

text \<open>
  Identity providers to run the callback against: one that answers the token exchange
  with an error status and a payload, one that accepts the exchange without granting a
  token and then refuses the profile request, one that cannot be reached at all (the
  axios error carries no response), and one that answers the exchange with \<open>null\<close>.
\<close>

definition rejecting_client :: http_client where
  "rejecting_client =
     \<lparr>axios_post = (\<lambda>url body headers. Inl (AxiosError (Some (JObject [(''error'', JString ''bad_verification_code'')])))),
      axios_get = (\<lambda>url headers. Inr JNull)\<rparr>"

definition bad_credentials_client :: http_client where
  "bad_credentials_client =
     \<lparr>axios_post = (\<lambda>url body headers. Inr (JObject [(''error'', JString ''bad_verification_code'')])),
      axios_get = (\<lambda>url headers. Inl (AxiosError (Some (JObject [(''message'', JString ''Bad credentials'')]))))\<rparr>"

definition no_response_client :: http_client where
  "no_response_client =
     \<lparr>axios_post = (\<lambda>url body headers. Inl (AxiosError None)),
      axios_get = (\<lambda>url headers. Inl (AxiosError None))\<rparr>"

definition null_client :: http_client where
  "null_client =
     \<lparr>axios_post = (\<lambda>url body headers. Inr JNull),
      axios_get = (\<lambda>url headers. Inr JNull)\<rparr>"

definition example_env :: env where
  "example_env = \<lparr>clientId = Some ''client'', clientSecret = Some ''secret'',
                   jwtSecret = Some ''key'', expiresIn = Some ''1d''\<rparr>"

definition example_sign :: jwt_sign where
  "example_sign payload secret expiry = Some ''signed''"

text \<open>A focus time of one hour, for the examples.\<close>

definition focus :: "nat \<Rightarrow> int \<Rightarrow> string \<Rightarrow> FocusTime" where
  "focus i t u = \<lparr>doc_id = i, timeFrom = t, timeTo = t + 3600000, userId = u\<rparr>"

section \<open>The calendar: a date determines its day number\<close>

lemma div_step: "0 < k \<Longrightarrow> a \<le> b \<Longrightarrow> b div k - a div k \<le> b - (a::int)"
proof -
  assume k: "0 < k" and ab: "a \<le> b"
  have "b \<le> a + (b - a) * k" using k ab
    by (smt (verit) mult_le_cancel_left1 mult.commute)
  then have "b div k \<le> (a + (b - a) * k) div k" by (rule zdiv_mono1) (rule k)
  also have "\<dots> = a div k + (b - a)" using k by simp
  finally show ?thesis by simp
qed

lemma year_of_era_mono:
  assumes "a \<le> b" shows "year_of_era a \<le> year_of_era b"
proof -
  have 1: "b div 1460 - a div 1460 \<le> b - a" using assms by (simp add: div_step)
  have 2: "a div 36524 \<le> b div 36524" using assms by (simp add: zdiv_mono1)
  have 3: "(b div 36524) div 4 - (a div 36524) div 4 \<le> b div 36524 - a div 36524"
    using 2 by (simp add: div_step)
  have 4: "a div 146096 = (a div 36524) div 4" "b div 146096 = (b div 36524) div 4"
    by (simp_all add: zdiv_zmult2_eq)
  have "a - a div 1460 + a div 36524 - a div 146096 \<le> b - b div 1460 + b div 36524 - b div 146096"
    using 1 3 4 by linarith
  then show ?thesis unfolding year_of_era_def by (rule zdiv_mono1) simp
qed

text \<open>The first and the last day of each of the 400 years of an era, by evaluation.\<close>

lemma year_bounds:
  "\<forall>y \<in> set [0..399]. year_of_era (year_start y) = y \<and> year_of_era (year_start (y + 1) - 1) = y"
  by code_simp

lemma year_length:
  "365 \<le> year_start (y + 1) - year_start y \<and> year_start (y + 1) - year_start y \<le> 366"
proof -
  define a4 b4 a100 b100 where "a4 = y div 4" and "b4 = (y + 1) div 4"
    and "a100 = y div 100" and "b100 = (y + 1) div 100"
  have m: "a4 \<le> b4" unfolding a4_def b4_def by (simp add: zdiv_mono1)
  have a: "b4 - a4 \<le> 1" unfolding a4_def b4_def using div_step [of 4 y "y + 1"] by simp
  have c: "a100 = a4 div 25" "b100 = b4 div 25"
    unfolding a4_def b4_def a100_def b100_def by (simp_all add: zdiv_zmult2_eq)
  have b: "b100 - a100 \<le> b4 - a4"
    unfolding c using m by (simp add: div_step)
  have d: "a100 \<le> b100" unfolding a100_def b100_def by (simp add: zdiv_mono1)
  have "year_start (y + 1) - year_start y = 365 + (b4 - a4) - (b100 - a100)"
    unfolding year_start_def a4_def b4_def a100_def b100_def by (simp add: algebra_simps)
  with a b d show ?thesis by linarith
qed

lemma find_year:
  "0 \<le> doe \<Longrightarrow> doe < year_start (int n) \<Longrightarrow>
     \<exists>y. 0 \<le> y \<and> y < int n \<and> year_start y \<le> doe \<and> doe < year_start (y + 1)"
proof (induction n)
  case 0
  then show ?case by (simp add: year_start_def)
next
  case (Suc n)
  show ?case
  proof (cases "doe < year_start (int n)")
    case True
    with Suc obtain y where "0 \<le> y" "y < int n" "year_start y \<le> doe" "doe < year_start (y + 1)"
      by blast
    then show ?thesis by (intro exI [of _ y]) simp
  next
    case False
    with Suc.prems show ?thesis
      by (intro exI [of _ "int n"]) (simp add: add.commute)
  qed
qed

lemma year_of_era_range:
  assumes "0 \<le> doe" "doe \<le> 146096"
  shows "0 \<le> year_of_era doe \<and> year_of_era doe \<le> 399
         \<and> 0 \<le> doe - year_start (year_of_era doe) \<and> doe - year_start (year_of_era doe) \<le> 365"
proof (cases "doe = 146096")
  case True
  then show ?thesis by (simp add: year_of_era_def year_start_def)
next
  case False
  with assms have "doe < year_start (int 400)" by (simp add: year_start_def)
  with assms(1) obtain y where y: "0 \<le> y" "y < 400" "year_start y \<le> doe" "doe < year_start (y + 1)"
    using find_year [of doe 400] by auto
  then have "y \<in> set [0..399]" by simp
  with year_bounds have e: "year_of_era (year_start y) = y" "year_of_era (year_start (y + 1) - 1) = y"
    by blast+
  have "y \<le> year_of_era doe" using year_of_era_mono [OF y(3)] e(1) by simp
  moreover have "year_of_era doe \<le> y"
    using year_of_era_mono [of doe "year_start (y + 1) - 1"] y(4) e(2) by simp
  ultimately have "year_of_era doe = y" by simp
  with y year_length [of y] show ?thesis by simp
qed

lemma month_of_year_range:
  assumes "0 \<le> doy" "doy \<le> (365::int)"
  shows "0 \<le> (5 * doy + 2) div 153 \<and> (5 * doy + 2) div 153 \<le> 11"
proof -
  have "0 div 153 \<le> (5 * doy + 2) div 153" using assms by (intro zdiv_mono1) simp_all
  moreover have "(5 * doy + 2) div 153 \<le> 1827 div 153" using assms by (intro zdiv_mono1) simp_all
  ultimately show ?thesis by simp
qed

lemma days_from_civil_inverse:
  "days_from_civil (fst (civil_from_days z)) (fst (snd (civil_from_days z))) (snd (snd (civil_from_days z))) = z"
proof -
  define era where "era = (z + 719468) div 146097"
  define doe where "doe = z + 719468 - era * 146097"
  define yoe where "yoe = year_of_era doe"
  define doy where "doy = doe - year_start yoe"
  define mp where "mp = (5 * doy + 2) div 153"
  define d where "d = doy - (153 * mp + 2) div 5 + 1"
  define m where "m = (if mp < 10 then mp + 3 else mp - 9)"
  have c: "civil_from_days z = (if m \<le> 2 then yoe + era * 400 + 1 else yoe + era * 400, m, d)"
    by (simp add: civil_from_days_def Let_def era_def doe_def yoe_def doy_def mp_def d_def m_def)
  have "doe = (z + 719468) mod 146097"
    unfolding doe_def era_def by (simp add: minus_div_mult_eq_mod)
  then have "0 \<le> doe" "doe \<le> 146096" by simp_all
  then have r: "0 \<le> yoe" "yoe \<le> 399" "0 \<le> doy" "doy \<le> 365"
    using year_of_era_range [of doe] by (simp_all add: yoe_def doy_def)
  then have mp: "0 \<le> mp" "mp \<le> 11"
    using month_of_year_range [of doy] by (simp_all add: mp_def)
  have y: "(if m \<le> 2 then (if m \<le> 2 then yoe + era * 400 + 1 else yoe + era * 400) - 1
            else (if m \<le> 2 then yoe + era * 400 + 1 else yoe + era * 400)) = yoe + era * 400"
    by simp
  have e: "(yoe + era * 400) div 400 = era" using r by simp
  have mm: "(if m > 2 then m - 3 else m + 9) = mp" using mp by (simp add: m_def)
  have dd: "(153 * mp + 2) div 5 + d - 1 = doy" by (simp add: d_def)
  have "days_from_civil (if m \<le> 2 then yoe + era * 400 + 1 else yoe + era * 400) m d
          = era * 146097 + (year_start yoe + doy) - 719468"
    unfolding days_from_civil_def Let_def y e mm dd by simp
  also have "\<dots> = z" by (simp add: doy_def doe_def)
  finally show ?thesis by (simp add: c)
qed

lemma civil_from_days_inj:
  assumes "civil_from_days a = civil_from_days b"
  shows "a = b"
proof -
  have "a = days_from_civil (fst (civil_from_days a)) (fst (snd (civil_from_days a))) (snd (snd (civil_from_days a)))"
    by (simp only: days_from_civil_inverse)
  also have "\<dots> = days_from_civil (fst (civil_from_days b)) (fst (snd (civil_from_days b))) (snd (snd (civil_from_days b)))"
    by (simp only: assms)
  also have "\<dots> = b" by (rule days_from_civil_inverse)
  finally show ?thesis .
qed

section \<open>Properties of the focus-time controller\<close>

subsection \<open>What each handler answers, case by case\<close>

lemma store_cases:
  "store db u (Fields b) =
     (case (body_timeFrom b, body_timeTo b) of
        (ValidDate tf, ValidDate tt) \<Rightarrow>
          (if tt < tf
           then (\<lparr>status = 400, json = Message ''timeFrom always has to be before timeTo''\<rparr>, db)
           else (\<lparr>status = 201, json = Created \<lparr>doc_id = length db, timeFrom = tf, timeTo = tt, userId = u\<rparr>\<rparr>,
                 db @ [\<lparr>doc_id = length db, timeFrom = tf, timeTo = tt, userId = u\<rparr>]))
      | (InvalidDate, ValidDate tt) \<Rightarrow>
          (\<lparr>status = 422, json = Issues [\<lparr>field = ''timeFrom'', message = ''Invalid date''\<rparr>]\<rparr>, db)
      | (ValidDate tf, InvalidDate) \<Rightarrow>
          (\<lparr>status = 422, json = Issues [\<lparr>field = ''timeTo'', message = ''Invalid date''\<rparr>]\<rparr>, db)
      | (InvalidDate, InvalidDate) \<Rightarrow>
          (\<lparr>status = 422, json = Issues [\<lparr>field = ''timeFrom'', message = ''Invalid date''\<rparr>,
                                        \<lparr>field = ''timeTo'', message = ''Invalid date''\<rparr>]\<rparr>, db))"
  by (simp add: store_def isBefore_def FocusTimeModel_create_def
      ErrorMessageValidation_def Let_def split: jsdate.splits)

lemma store_not_an_object:
  "store db u (NotAnObject r) =
     (\<lparr>status = 422, json = Issues [\<lparr>field = '''', message = invalid_type_message r\<rparr>]\<rparr>, db)"
  by (simp add: store_def ErrorMessageValidation_def)

lemma index_invalid:
  "index z db u InvalidDate
     = Some \<lparr>status = 422, json = Issues [\<lparr>field = ''date'', message = ''Invalid date''\<rparr>]\<rparr>"
  by (simp add: index_def date_schema_def ErrorMessageValidation_def)

lemma index_valid_status: "index z db u (ValidDate d) = Some r \<Longrightarrow> status r = 200"
  by (auto simp: index_def date_schema_def Let_def split: option.splits)

lemma metrics_invalid:
  "metricsByMonth z db u InvalidDate = \<lparr>status = 422, json = Issues [\<lparr>field = ''date'', message = ''Invalid date''\<rparr>]\<rparr>"
  by (simp add: metricsByMonth_def date_schema_def ErrorMessageValidation_def)

lemma metrics_valid_status: "status (metricsByMonth z db u (ValidDate d)) = 200"
  by (simp add: metricsByMonth_def date_schema_def Let_def)

subsection \<open>Storing a focus time\<close>

text \<open>
  Claim C1. \<open>store\<close> answers 400 with the message
  "timeFrom always has to be before timeTo" exactly when both bounds are dates and
  \<open>timeTo\<close> is strictly before \<open>timeFrom\<close>. With equal bounds the request is accepted:
  the answer is 201 and the record, with both bounds equal, is appended to the
  collection.
\<close>

theorem store_range_order:
  "(fst (store db u b) = \<lparr>status = 400, json = Message ''timeFrom always has to be before timeTo''\<rparr>
      \<longleftrightarrow> (\<exists>sb tf tt. b = Fields sb \<and> body_timeFrom sb = ValidDate tf
             \<and> body_timeTo sb = ValidDate tt \<and> tt < tf))
   \<and> (status (fst (store db u b)) = 400
      \<longleftrightarrow> (\<exists>sb tf tt. b = Fields sb \<and> body_timeFrom sb = ValidDate tf
             \<and> body_timeTo sb = ValidDate tt \<and> tt < tf))
   \<and> store db u (Fields \<lparr>body_timeFrom = ValidDate t, body_timeTo = ValidDate t\<rparr>)
       = (\<lparr>status = 201, json = Created \<lparr>doc_id = length db, timeFrom = t, timeTo = t, userId = u\<rparr>\<rparr>,
          db @ [\<lparr>doc_id = length db, timeFrom = t, timeTo = t, userId = u\<rparr>])"
  by (cases b) (auto simp: store_cases store_not_an_object split: jsdate.splits)

theorem store_range_order_witness:
  "fst (store [] ''u1'' (Fields \<lparr>body_timeFrom = ValidDate 1704103200000, body_timeTo = ValidDate 1704099600000\<rparr>))
     = \<lparr>status = 400, json = Message ''timeFrom always has to be before timeTo''\<rparr>
   \<and> store [] ''u1'' (Fields \<lparr>body_timeFrom = ValidDate 1704103200000, body_timeTo = ValidDate 1704103200000\<rparr>)
     = (\<lparr>status = 201, json = Created \<lparr>doc_id = 0, timeFrom = 1704103200000, timeTo = 1704103200000, userId = ''u1''\<rparr>\<rparr>,
        [\<lparr>doc_id = 0, timeFrom = 1704103200000, timeTo = 1704103200000, userId = ''u1''\<rparr>])"
  using store_range_order [of "[]" "''u1''"
      "Fields \<lparr>body_timeFrom = ValidDate 1704103200000, body_timeTo = ValidDate 1704099600000\<rparr>" 1704103200000]
  by simp

text \<open>
  Claim C4. When both bounds are dates and \<open>timeFrom < timeTo\<close>, \<open>store\<close> answers
  201 with the persisted record; its bounds are the input bounds and its owner is the
  caller.
\<close>

theorem store_success:
  "tf < tt \<Longrightarrow>
     \<exists>doc. store db u (Fields \<lparr>body_timeFrom = ValidDate tf, body_timeTo = ValidDate tt\<rparr>)
             = (\<lparr>status = 201, json = Created doc\<rparr>, db @ [doc])
         \<and> timeFrom doc = tf \<and> timeTo doc = tt \<and> userId doc = u"
  by (simp add: store_cases)

theorem store_success_witness:
  "(1704099600000::int) < 1704103200000 \<and>
   (\<exists>doc. store [] ''u1'' (Fields \<lparr>body_timeFrom = ValidDate 1704099600000, body_timeTo = ValidDate 1704103200000\<rparr>)
             = (\<lparr>status = 201, json = Created doc\<rparr>, [] @ [doc])
         \<and> timeFrom doc = 1704099600000 \<and> timeTo doc = 1704103200000 \<and> userId doc = ''u1'')"
  using store_success [of 1704099600000 1704103200000 "[]" "''u1''"] by simp

text \<open>
  Claim C9. Whenever \<open>store\<close> answers 422 or 400, the collection it hands back is the
  collection it was given: nothing is persisted by a rejected request.
\<close>

theorem store_atomic_on_error:
  "status (fst (store db u b)) = 422 \<or> status (fst (store db u b)) = 400 \<Longrightarrow> snd (store db u b) = db"
  by (cases b) (auto simp: store_cases store_not_an_object split: jsdate.splits if_splits)

theorem store_atomic_on_error_witness:
  "status (fst (store [] ''u1'' (Fields \<lparr>body_timeFrom = InvalidDate, body_timeTo = ValidDate 5\<rparr>))) = 422
   \<and> snd (store [] ''u1'' (Fields \<lparr>body_timeFrom = InvalidDate, body_timeTo = ValidDate 5\<rparr>)) = []
   \<and> status (fst (store [] ''u1'' (Fields \<lparr>body_timeFrom = ValidDate 9, body_timeTo = ValidDate 5\<rparr>))) = 400
   \<and> snd (store [] ''u1'' (Fields \<lparr>body_timeFrom = ValidDate 9, body_timeTo = ValidDate 5\<rparr>)) = []
   \<and> status (fst (store [] ''u1'' (NotAnObject RArray))) = 422
   \<and> snd (store [] ''u1'' (NotAnObject RArray)) = []"
  using store_atomic_on_error [of "[]" "''u1''" "Fields \<lparr>body_timeFrom = InvalidDate, body_timeTo = ValidDate 5\<rparr>"]
    store_atomic_on_error [of "[]" "''u1''" "Fields \<lparr>body_timeFrom = ValidDate 9, body_timeTo = ValidDate 5\<rparr>"]
    store_atomic_on_error [of "[]" "''u1''" "NotAnObject RArray"]
  by (simp add: store_cases store_not_an_object)

subsection \<open>The order of the bounds of every stored record\<close>

lemma store_keeps_order:
  assumes "\<forall>r \<in> set db. timeFrom r \<le> timeTo r"
  shows "\<forall>r \<in> set (snd (store db u b)). timeFrom r \<le> timeTo r"
  using assms by (cases b) (auto simp: store_cases store_not_an_object split: jsdate.splits if_splits)

lemma route_keeps_order:
  assumes "\<forall>r \<in> set db. timeFrom r \<le> timeTo r"
  shows "\<forall>r \<in> set (snd (route z db rq)). timeFrom r \<le> timeTo r"
proof (cases rq)
  case (PostFocusTime u b)
  with store_keeps_order [OF assms, of u b] show ?thesis by simp
qed (use assms in simp_all)

lemma serve_keeps_order:
  "\<forall>r \<in> set db. timeFrom r \<le> timeTo r \<Longrightarrow> \<forall>r \<in> set (serve z db rqs). timeFrom r \<le> timeTo r"
proof (induction rqs arbitrary: db)
  case Nil
  then show ?case by simp
next
  case (Cons rq rqs)
  have "\<forall>r \<in> set (snd (route z db rq)). timeFrom r \<le> timeTo r"
    using Cons.prems by (rule route_keeps_order)
  then show ?case using Cons.IH by simp
qed

text \<open>
  Claim C5, as stated, fails: a request whose two bounds are the same instant is
  accepted (the guard is \<open>timeTo.isBefore(timeFrom)\<close>), so the collection then holds a
  record whose \<open>timeFrom\<close> is not strictly before its \<open>timeTo\<close>.
\<close>

theorem persisted_strict_order_counterexample:
  "serve (fixed_zone 0) []
      [PostFocusTime ''u1'' (Fields \<lparr>body_timeFrom = ValidDate 1704103200000, body_timeTo = ValidDate 1704103200000\<rparr>)]
     = [\<lparr>doc_id = 0, timeFrom = 1704103200000, timeTo = 1704103200000, userId = ''u1''\<rparr>]
   \<and> \<not> timeFrom \<lparr>doc_id = 0, timeFrom = 1704103200000, timeTo = 1704103200000, userId = ''u1''\<rparr>
         < timeTo \<lparr>doc_id = 0, timeFrom = 1704103200000, timeTo = 1704103200000, userId = ''u1''\<rparr>"
  by (simp add: store_cases)

text \<open>
  Claim C5, amended. Starting from the empty collection, after any sequence of
  requests to the focus-time routes every stored record has \<open>timeFrom \<le> timeTo\<close>:
  \<open>store\<close> is the only route that writes, and it writes only when \<open>timeTo\<close> is not
  before \<open>timeFrom\<close>.
\<close>

theorem persisted_weak_order:
  "\<forall>r \<in> set (serve z [] rqs). timeFrom r \<le> timeTo r"
  by (rule serve_keeps_order) simp

theorem persisted_weak_order_witness:
  "serve (fixed_zone 0) []
      [PostFocusTime ''u1'' (Fields \<lparr>body_timeFrom = ValidDate 10, body_timeTo = ValidDate 20\<rparr>),
       PostFocusTime ''u1'' (Fields \<lparr>body_timeFrom = ValidDate 30, body_timeTo = ValidDate 30\<rparr>),
       PostFocusTime ''u2'' (Fields \<lparr>body_timeFrom = ValidDate 50, body_timeTo = ValidDate 40\<rparr>),
       GetFocusTime ''u1'' (ValidDate 15)]
     = [\<lparr>doc_id = 0, timeFrom = 10, timeTo = 20, userId = ''u1''\<rparr>,
        \<lparr>doc_id = 1, timeFrom = 30, timeTo = 30, userId = ''u1''\<rparr>]
   \<and> (10::int) \<le> 20 \<and> (30::int) \<le> 30"
  using persisted_weak_order [of "fixed_zone 0"
      "[PostFocusTime ''u1'' (Fields \<lparr>body_timeFrom = ValidDate 10, body_timeTo = ValidDate 20\<rparr>),
        PostFocusTime ''u1'' (Fields \<lparr>body_timeFrom = ValidDate 30, body_timeTo = ValidDate 30\<rparr>),
        PostFocusTime ''u2'' (Fields \<lparr>body_timeFrom = ValidDate 50, body_timeTo = ValidDate 40\<rparr>),
        GetFocusTime ''u1'' (ValidDate 15)]"]
  by (simp add: store_cases)

subsection \<open>Validation failures\<close>

text \<open>
  Claim C6, as stated, fails: it has every answer to a failed validation hold an
  issue that references the offending field. A body that is not an object (here a JSON
  array) fails validation as a whole: the answer is 422 with one issue, whose path is
  empty, and no issue names \<open>timeFrom\<close> or \<open>timeTo\<close>.
\<close>

theorem issue_names_field_counterexample:
  "store_schema (NotAnObject RArray) = Inl [ZodIssue [] ''Expected object, received array'']
   \<and> fst (store [] ''u1'' (NotAnObject RArray))
       = \<lparr>status = 422, json = Issues [\<lparr>field = '''', message = ''Expected object, received array''\<rparr>]\<rparr>
   \<and> field \<lparr>field = '''', message = ''Expected object, received array''\<rparr> \<noteq> ''timeFrom''
   \<and> field \<lparr>field = '''', message = ''Expected object, received array''\<rparr> \<noteq> ''timeTo''"
  by (simp add: store_not_an_object invalid_type_message_def)

text \<open>
  Claim C6, amended. Each of the three handlers answers 422 exactly when its input
  fails validation: for \<open>store\<close>, when the body is not an object or one of its two
  fields is not a date; for the two queries, when \<open>date\<close> is not a date. The body of
  the answer is the list of issues. When fields are at fault there is one issue per
  offending field, naming the field, in the order of the schema (\<open>timeFrom\<close> before
  \<open>timeTo\<close>; \<open>date\<close> alone for the two queries); when the body is not an object
  there is a single issue that names no field. Input that passes validation never gets
  a 422.
\<close>

theorem validation_422:
  "(status (fst (store db u b)) = 422 \<longleftrightarrow>
      (\<exists>r. b = NotAnObject r)
      \<or> (\<exists>sb. b = Fields sb \<and> (body_timeFrom sb = InvalidDate \<or> body_timeTo sb = InvalidDate)))
   \<and> (\<forall>sb. b = Fields sb \<and> status (fst (store db u b)) = 422 \<longrightarrow>
        (\<exists>is. json (fst (store db u b)) = Issues is
           \<and> map field is = (if body_timeFrom sb = InvalidDate then [''timeFrom''] else [])
                            @ (if body_timeTo sb = InvalidDate then [''timeTo''] else [])))
   \<and> (\<forall>r. b = NotAnObject r \<longrightarrow>
        json (fst (store db u b)) = Issues [\<lparr>field = '''', message = invalid_type_message r\<rparr>])
   \<and> (\<forall>resp. index z db u q = Some resp \<longrightarrow> (status resp = 422 \<longleftrightarrow> q = InvalidDate))
   \<and> (q = InvalidDate \<longrightarrow>
        (\<exists>is. index z db u q = Some \<lparr>status = 422, json = Issues is\<rparr> \<and> map field is = [''date'']))
   \<and> (status (metricsByMonth z db u q) = 422 \<longleftrightarrow> q = InvalidDate)
   \<and> (status (metricsByMonth z db u q) = 422 \<longrightarrow>
        (\<exists>is. json (metricsByMonth z db u q) = Issues is \<and> map field is = [''date'']))"
proof -
  have s: "status (fst (store db u b)) = 422 \<longleftrightarrow>
      (\<exists>r. b = NotAnObject r)
      \<or> (\<exists>sb. b = Fields sb \<and> (body_timeFrom sb = InvalidDate \<or> body_timeTo sb = InvalidDate))"
    by (cases b) (auto simp: store_cases store_not_an_object split: jsdate.splits if_splits)
  have sj: "\<forall>sb. b = Fields sb \<and> status (fst (store db u b)) = 422 \<longrightarrow>
        (\<exists>is. json (fst (store db u b)) = Issues is
           \<and> map field is = (if body_timeFrom sb = InvalidDate then [''timeFrom''] else [])
                            @ (if body_timeTo sb = InvalidDate then [''timeTo''] else []))"
    by (auto simp: store_cases split: jsdate.splits if_splits)
  have sn: "\<forall>r. b = NotAnObject r \<longrightarrow>
        json (fst (store db u b)) = Issues [\<lparr>field = '''', message = invalid_type_message r\<rparr>]"
    by (simp add: store_not_an_object)
  have i: "\<forall>resp. index z db u q = Some resp \<longrightarrow> (status resp = 422 \<longleftrightarrow> q = InvalidDate)"
    by (cases q) (auto simp: index_invalid dest: index_valid_status)
  have ij: "q = InvalidDate \<longrightarrow>
        (\<exists>is. index z db u q = Some \<lparr>status = 422, json = Issues is\<rparr> \<and> map field is = [''date''])"
    by (simp add: index_invalid)
  have m: "status (metricsByMonth z db u q) = 422 \<longleftrightarrow> q = InvalidDate"
    by (cases q) (simp_all add: metrics_invalid metrics_valid_status)
  have mj: "status (metricsByMonth z db u q) = 422 \<longrightarrow>
        (\<exists>is. json (metricsByMonth z db u q) = Issues is \<and> map field is = [''date''])"
    by (cases q) (simp_all add: metrics_invalid metrics_valid_status)
  from s sj sn i ij m mj show ?thesis by blast
qed

theorem validation_422_witness:
  "status (fst (store [] ''u1'' (Fields \<lparr>body_timeFrom = InvalidDate, body_timeTo = InvalidDate\<rparr>))) = 422
   \<and> json (fst (store [] ''u1'' (Fields \<lparr>body_timeFrom = InvalidDate, body_timeTo = InvalidDate\<rparr>)))
       = Issues [\<lparr>field = ''timeFrom'', message = ''Invalid date''\<rparr>, \<lparr>field = ''timeTo'', message = ''Invalid date''\<rparr>]
   \<and> status (fst (store [] ''u1'' (NotAnObject RArray))) = 422
   \<and> json (fst (store [] ''u1'' (NotAnObject RArray)))
       = Issues [\<lparr>field = '''', message = ''Expected object, received array''\<rparr>]
   \<and> index (fixed_zone 0) [] ''u1'' InvalidDate
       = Some \<lparr>status = 422, json = Issues [\<lparr>field = ''date'', message = ''Invalid date''\<rparr>]\<rparr>
   \<and> status (metricsByMonth (fixed_zone 0) [] ''u1'' InvalidDate) = 422
   \<and> json (metricsByMonth (fixed_zone 0) [] ''u1'' InvalidDate)
       = Issues [\<lparr>field = ''date'', message = ''Invalid date''\<rparr>]"
  using validation_422 [of "[]" "''u1''" "Fields \<lparr>body_timeFrom = InvalidDate, body_timeTo = InvalidDate\<rparr>"
      "fixed_zone 0" InvalidDate]
    validation_422 [of "[]" "''u1''" "NotAnObject RArray" "fixed_zone 0" InvalidDate]
  by (simp add: store_cases store_not_an_object index_invalid metrics_invalid invalid_type_message_def)

subsection \<open>The day window and the list of a day\<close>

lemma Day_iff: "Day x = k \<longleftrightarrow> k * msPerDay \<le> x \<and> x < k * msPerDay + msPerDay"
proof
  assume "Day x = k"
  then have k: "k = x div 86400000" by (simp add: Day_def msPerDay_def)
  have "x = 86400000 * (x div 86400000) + x mod 86400000" by simp
  moreover have "0 \<le> x mod 86400000" "x mod 86400000 < 86400000" by simp_all
  ultimately show "k * msPerDay \<le> x \<and> x < k * msPerDay + msPerDay"
    unfolding k msPerDay_def by linarith
next
  assume a: "k * msPerDay \<le> x \<and> x < k * msPerDay + msPerDay"
  have "x div 86400000 = k"
    by (rule int_div_pos_eq [where r = "x - 86400000 * k"]) (use a in \<open>simp_all add: msPerDay_def\<close>)
  then show "Day x = k" by (simp add: Day_def msPerDay_def)
qed

lemma same_local_day_iff: "same_local_day z a b \<longleftrightarrow> Day (LocalTime z a) = Day (LocalTime z b)"
proof
  assume "same_local_day z a b"
  then have "civil_from_days (Day (LocalTime z a)) = civil_from_days (Day (LocalTime z b))"
    by (simp add: same_local_day_def getFullYear_def getMonth_def getDate_def
        YearFromTime_def MonthFromTime_def DateFromTime_def prod_eq_iff)
  then show "Day (LocalTime z a) = Day (LocalTime z b)" by (rule civil_from_days_inj)
next
  assume "Day (LocalTime z a) = Day (LocalTime z b)"
  then show "same_local_day z a b"
    by (simp add: same_local_day_def getFullYear_def getMonth_def getDate_def
        YearFromTime_def MonthFromTime_def DateFromTime_def)
qed

lemma startOf_day:
  "startOf z D d = TimeClip (UTC z (MakeDate (Day (LocalTime z d)) (MakeTime 0 0 0 0)))"
  by (simp add: startOf_def instanceFactorySet_def)

lemma endOf_day:
  "endOf z D d = TimeClip (UTC z (MakeDate (Day (LocalTime z d)) (MakeTime 23 59 59 999)))"
  by (simp add: endOf_def instanceFactorySet_def)





text \<open>
  On a host with a constant offset, the instants between the two bounds are those of
  the calendar day of the date.
\<close>

lemma fixed_zone_day_window:
  "same_local_day (fixed_zone c) t d \<longleftrightarrow>
     UTC (fixed_zone c) (MakeDate (Day (LocalTime (fixed_zone c) d)) (MakeTime 0 0 0 0)) \<le> t
     \<and> t \<le> UTC (fixed_zone c) (MakeDate (Day (LocalTime (fixed_zone c) d)) (MakeTime 23 59 59 999))"
proof -
  let ?z = "fixed_zone c"
  have "same_local_day ?z t d \<longleftrightarrow> Day (LocalTime ?z t) = Day (LocalTime ?z d)"
    by (rule same_local_day_iff)
  also have "\<dots> \<longleftrightarrow> Day (LocalTime ?z d) * msPerDay \<le> LocalTime ?z t
                     \<and> LocalTime ?z t < Day (LocalTime ?z d) * msPerDay + msPerDay"
    by (rule Day_iff)
  also have "\<dots> \<longleftrightarrow> UTC ?z (MakeDate (Day (LocalTime ?z d)) (MakeTime 0 0 0 0)) \<le> t
     \<and> t \<le> UTC ?z (MakeDate (Day (LocalTime ?z d)) (MakeTime 23 59 59 999))"
    by (auto simp: LocalTime_def UTC_def fixed_zone_def MakeDate_def MakeTime_def msPerDay_def)
  finally show ?thesis .
qed




subsection \<open>The windows depend on the day, or the month, only\<close>

text \<open>
  Claim C10. Two dates in the same calendar day give \<open>index\<close> the same window and the
  same answer; two dates in the same calendar month give \<open>metricsByMonth\<close> the same
  window and the same answer. This holds whatever the rules of the host's time zone.
\<close>

theorem windows_invariant:
  "(same_local_day z a b \<longrightarrow>
      startOf z D a = startOf z D b \<and> endOf z D a = endOf z D b
      \<and> index z db u (ValidDate a) = index z db u (ValidDate b))
   \<and> (same_local_month z a b \<longrightarrow>
      startOf z M a = startOf z M b \<and> endOf z M a = endOf z M b
      \<and> metricsByMonth z db u (ValidDate a) = metricsByMonth z db u (ValidDate b))"
proof -
  have day: "startOf z D a = startOf z D b \<and> endOf z D a = endOf z D b"
    if "same_local_day z a b"
    using that by (simp add: startOf_day endOf_day same_local_day_iff)
  have month: "startOf z M a = startOf z M b \<and> endOf z M a = endOf z M b"
    if "same_local_month z a b"
    using that by (simp add: startOf_def endOf_def instanceFactory_def same_local_month_def)
  show ?thesis
    using day month by (auto simp: index_def metricsByMonth_def date_schema_def Let_def)
qed

text \<open>
  In New York, 01:00 and 11:00 of 10 March 2024 lie on either side of the change of
  offset, and so do 5 March and 20 March.
\<close>

theorem windows_invariant_witness:
  "same_local_day new_york_2024 1710050400000 1710082800000
   \<and> startOf new_york_2024 D 1710050400000 = ValidDate 1710046800000
   \<and> startOf new_york_2024 D 1710082800000 = ValidDate 1710046800000
   \<and> endOf new_york_2024 D 1710050400000 = endOf new_york_2024 D 1710082800000
   \<and> index new_york_2024 [focus 0 1710050400000 ''u1''] ''u1'' (ValidDate 1710050400000)
       = index new_york_2024 [focus 0 1710050400000 ''u1''] ''u1'' (ValidDate 1710082800000)
   \<and> same_local_month new_york_2024 1709640000000 1710936000000
   \<and> startOf new_york_2024 M 1709640000000 = ValidDate 1709269200000
   \<and> startOf new_york_2024 M 1710936000000 = ValidDate 1709269200000
   \<and> endOf new_york_2024 M 1709640000000 = ValidDate 1711943999999
   \<and> endOf new_york_2024 M 1710936000000 = ValidDate 1711943999999
   \<and> metricsByMonth new_york_2024 [focus 0 1710050400000 ''u1''] ''u1'' (ValidDate 1709640000000)
       = metricsByMonth new_york_2024 [focus 0 1710050400000 ''u1''] ''u1'' (ValidDate 1710936000000)"
proof -
  have d: "same_local_day new_york_2024 1710050400000 1710082800000" by code_simp
  have m: "same_local_month new_york_2024 1709640000000 1710936000000" by code_simp
  have sd: "startOf new_york_2024 D 1710050400000 = ValidDate 1710046800000" by code_simp
  have sm: "startOf new_york_2024 M 1709640000000 = ValidDate 1709269200000" by code_simp
  have em: "endOf new_york_2024 M 1709640000000 = ValidDate 1711943999999" by code_simp
  show ?thesis
    using d m sd sm em
      windows_invariant [of new_york_2024 1710050400000 1710082800000 "[focus 0 1710050400000 ''u1'']" "''u1''"]
      windows_invariant [of new_york_2024 1709640000000 1710936000000 "[focus 0 1710050400000 ''u1'']" "''u1''"]
    by simp
qed

subsection \<open>The buckets of a month\<close>

text \<open>
  What \<open>metricsByMonth\<close> answers for a valid date: one bucket for each (year, month,
  day) of the \<open>timeFrom\<close> of the caller's records in the window, read in UTC, no other
  bucket, each with the number of those records; and the buckets are in ascending order
  of the \<^emph>\<open>least number\<close> of their key: MongoDB (since 3.6, in \<open>find\<close> and in
  \<open>aggregate\<close> alike) sorts a field that holds an array by the smallest element of the
  array when the order is ascending, not by the array as a sequence.
\<close>

lemma group_add_keys: "key ` set (group_add k bs) = insert k (key ` set bs)"
  by (induction bs) auto

lemma group_add_distinct: "distinct (map key bs) \<Longrightarrow> distinct (map key (group_add k bs))"
proof (induction bs)
  case Nil
  then show ?case by simp
next
  case (Cons b bs)
  have "key b \<notin> key ` set (group_add k bs)" if "key b \<noteq> k"
    using that Cons.prems by (simp add: group_add_keys)
  with Cons show ?case by auto
qed

lemma group_add_count:
  "sum_list (map count (filter (\<lambda>b. key b = k') (group_add k bs)))
     = sum_list (map count (filter (\<lambda>b. key b = k') bs)) + (if k' = k then 1 else 0)"
  by (induction bs) auto

lemma foldl_group_add:
  "distinct (map key acc) \<Longrightarrow>
   distinct (map key (foldl (\<lambda>acc p. group_add (f p) acc) acc ps))
   \<and> set (map key (foldl (\<lambda>acc p. group_add (f p) acc) acc ps)) = set (map key acc) \<union> set (map f ps)
   \<and> (\<forall>k. sum_list (map count (filter (\<lambda>b. key b = k) (foldl (\<lambda>acc p. group_add (f p) acc) acc ps)))
          = sum_list (map count (filter (\<lambda>b. key b = k) acc)) + count_list (map f ps) k)"
proof (induction ps arbitrary: acc)
  case Nil
  then show ?case by simp
next
  case (Cons p ps)
  have d: "distinct (map key (group_add (f p) acc))"
    using Cons.prems by (rule group_add_distinct)
  show ?case
    using Cons.IH [OF d] by (simp add: group_add_keys group_add_count)
qed

lemma distinct_key_count:
  "distinct (map key bs) \<Longrightarrow> b \<in> set bs \<Longrightarrow>
     sum_list (map count (filter (\<lambda>c. key c = key b) bs)) = count b"
proof (induction bs)
  case Nil
  then show ?case by simp
next
  case (Cons c bs)
  show ?case
  proof (cases "b = c")
    case True
    have "key c \<notin> key ` set bs" using Cons.prems(1) by simp
    then have "\<forall>x \<in> set bs. key x \<noteq> key c" by (metis imageI)
    then have "filter (\<lambda>x. key x = key c) bs = []"
      by (simp add: filter_empty_conv)
    with True show ?thesis by simp
  next
    case False
    with Cons show ?thesis by (auto simp: image_iff)
  qed
qed

lemma group_buckets:
  "distinct (map key (group ps))
   \<and> set (map key (group ps)) = set (map (\<lambda>p. [year p, month p, day p]) ps)
   \<and> (\<forall>b \<in> set (group ps). count b = count_list (map (\<lambda>p. [year p, month p, day p]) ps) (key b))"
proof -
  let ?f = "\<lambda>p. [year p, month p, day p]"
  have g: "distinct (map key (group ps))"
    "set (map key (group ps)) = set (map ?f ps)"
    "\<And>k. sum_list (map count (filter (\<lambda>b. key b = k) (group ps))) = count_list (map ?f ps) k"
    using foldl_group_add [of "[]" ?f ps] by (simp_all add: group_def)
  have "count b = count_list (map ?f ps) (key b)" if "b \<in> set (group ps)" for b
    using distinct_key_count [OF g(1) that] g(3) [of "key b"] by simp
  with g show ?thesis by blast
qed

lemma sort_by_id_buckets:
  "mset (sort_by_id bs) = mset bs \<and> sorted (map (\<lambda>b. asc_sort_key (key b)) (sort_by_id bs))"
  by (simp add: sort_by_id_def)

lemma metrics_valid:
  "metricsByMonth z db u (ValidDate d) =
     \<lparr>status = 200,
      json = Metrics (sort_by_id (group (map project
               (match db (startOf z M d) (endOf z M d) u))))\<rparr>"
  by (simp add: metricsByMonth_def date_schema_def Let_def)

lemma metrics_buckets:
  fixes z db u d
  defines "rs \<equiv> match db (startOf z M d) (endOf z M d) u"
  defines "ymd \<equiv> \<lambda>r. [YearFromTime (timeFrom r), MonthFromTime (timeFrom r) + 1, DateFromTime (timeFrom r)]"
  shows "\<exists>bs. metricsByMonth z db u (ValidDate d) = \<lparr>status = 200, json = Metrics bs\<rparr>
           \<and> distinct (map key bs)
           \<and> set (map key bs) = set (map ymd rs)
           \<and> (\<forall>b \<in> set bs. count b = count_list (map ymd rs) (key b))
           \<and> sorted (map (\<lambda>b. asc_sort_key (key b)) bs)"
proof -
  let ?g = "group (map project rs)"
  have p: "map (\<lambda>p. [year p, month p, day p]) (map project rs) = map ymd rs"
    by (simp add: project_def ymd_def)
  have m: "mset (sort_by_id ?g) = mset ?g" using sort_by_id_buckets by blast
  then have s: "set (sort_by_id ?g) = set ?g" by (rule mset_eq_setD)
  have "mset (map key (sort_by_id ?g)) = mset (map key ?g)" using m by (metis mset_map)
  then have "distinct (map key (sort_by_id ?g)) = distinct (map key ?g)"
    by (rule mset_eq_imp_distinct_iff)
  then have "distinct (map key (sort_by_id ?g))" using group_buckets [of "map project rs"] by simp
  moreover have "set (map key (sort_by_id ?g)) = set (map ymd rs)"
    using group_buckets [of "map project rs"] s unfolding p by simp
  moreover have "\<forall>b \<in> set (sort_by_id ?g). count b = count_list (map ymd rs) (key b)"
    using group_buckets [of "map project rs"] s unfolding p by simp
  moreover have "sorted (map (\<lambda>b. asc_sort_key (key b)) (sort_by_id ?g))"
    using sort_by_id_buckets by blast
  ultimately show ?thesis unfolding metrics_valid rs_def by blast
qed

text \<open>
  Claim C2 says that the buckets come sorted ascending by their (year, month, day) key.
  On a host three hours behind UTC, the month window of 15 February 2024 runs from
  2024-02-01T03:00:00.000Z to 2024-03-01T02:59:59.999Z. With one record at
  2024-02-02T12:00Z and one at 2024-03-01T01:00Z the keys are [2024, 2, 2] and
  [2024, 3, 1], their sort keys 2 and 1, and the answer lists 1 March before
  2 February.
\<close>

theorem metrics_order_example:
  "metricsByMonth (fixed_zone (- 10800000))
      [focus 0 1706875200000 ''u1'', focus 1 1709254800000 ''u1''] ''u1'' (ValidDate 1707998400000)
     = \<lparr>status = 200,
        json = Metrics [\<lparr>key = [2024, 3, 1], count = 1\<rparr>, \<lparr>key = [2024, 2, 2], count = 1\<rparr>]\<rparr>"
  by code_simp

text \<open>
  On a host in UTC all keys of one month have the same year and month, so a bucket's
  sort key is the least of month and day: in January every bucket has sort key 1 and
  the sort leaves the buckets in the order in which \<open>$group\<close> emits them, which
  MongoDB leaves open. Here, with the first document of each group deciding, records
  stored for the days 10, 3 and 3 are answered as day 10 before day 3.
\<close>

lemma metrics_ties_example:
  "metricsByMonth (fixed_zone 0)
      [focus 0 1704844800000 ''u1'', focus 1 1704240000000 ''u1'', focus 2 1704243600000 ''u1'']
      ''u1'' (ValidDate 1705320000000)
     = \<lparr>status = 200,
        json = Metrics [\<lparr>key = [2024, 1, 10], count = 1\<rparr>, \<lparr>key = [2024, 1, 3], count = 2\<rparr>]\<rparr>"
  by code_simp

section \<open>Properties of the authentication controller\<close>

lemma authCallback_try_urls:
  "hd (snd (authCallback_try e client sign code)) = ''htpps://github.com/login/oauth/access_token''"
  by (simp add: authCallback_try_def Let_def split: sum.splits option.splits)

lemma authCallback_urls: "snd (authCallback e client sign code) = snd (authCallback_try e client sign code)"
  by (simp add: authCallback_def split: prod.splits sum.splits)

text \<open>
  Claim C7 says that the token exchange goes to an https URL. Whatever the
  configuration, the provider and the code, the first request of \<open>authCallback\<close> goes
  to a URL whose scheme is spelled \<open>htpps\<close>: it does not start with \<open>https://\<close>.
\<close>

theorem token_exchange_url:
  "hd (snd (authCallback e client sign code)) = ''htpps://github.com/login/oauth/access_token''
   \<and> \<not> prefix ''https://'' (hd (snd (authCallback e client sign code)))"
  by (simp add: authCallback_urls authCallback_try_urls)

lemma post_fails:
  "axios_post client ''htpps://github.com/login/oauth/access_token''
      [(''client_id'', env_value (clientId e)), (''client_secret'', env_value (clientSecret e)), (''code'', code)]
      [(''Accept'', ''application/json'')] = Inl err
   \<Longrightarrow> fst (authCallback_try e client sign code) = Inl err"
  by (simp add: authCallback_try_def)

lemma get_fails:
  "axios_post client ''htpps://github.com/login/oauth/access_token''
      [(''client_id'', env_value (clientId e)), (''client_secret'', env_value (clientSecret e)), (''code'', code)]
      [(''Accept'', ''application/json'')] = Inr d
   \<Longrightarrow> get_prop d ''access_token'' = Inr tok
   \<Longrightarrow> axios_get client ''https://api.github.com/user'' [(''Authorization'', ''Bearer '' @ to_string tok)] = Inl err
   \<Longrightarrow> fst (authCallback_try e client sign code) = Inl err"
  by (simp add: authCallback_try_def)

lemma catch_cases:
  "fst (authCallback e client sign code) =
     (case fst (authCallback_try e client sign code) of
        Inr body \<Rightarrow> \<lparr>auth_status = 200, auth_json = body\<rparr>
      | Inl (AxiosError None) \<Rightarrow> \<lparr>auth_status = 400, auth_json = JUndefined\<rparr>
      | Inl (AxiosError (Some d)) \<Rightarrow> \<lparr>auth_status = 400, auth_json = d\<rparr>
      | Inl OtherError \<Rightarrow> \<lparr>auth_status = 500, auth_json = JObject [(''message'', JString ''There something wrong.'')]\<rparr>)"
  by (simp add: authCallback_def split: prod.splits sum.splits failure.splits option.splits)

lemma get_prop_error: "get_prop v name = Inl err \<Longrightarrow> err = OtherError"
  by (cases v) simp_all

text \<open>An axios error leaves the \<open>try\<close> block only from one of the two requests.\<close>

lemma axios_error_origin:
  assumes "fst (authCallback_try e client sign code) = Inl (AxiosError q)"
  shows "axios_post client ''htpps://github.com/login/oauth/access_token''
           [(''client_id'', env_value (clientId e)), (''client_secret'', env_value (clientSecret e)), (''code'', code)]
           [(''Accept'', ''application/json'')] = Inl (AxiosError q)
         \<or> (\<exists>d tok. axios_post client ''htpps://github.com/login/oauth/access_token''
                [(''client_id'', env_value (clientId e)), (''client_secret'', env_value (clientSecret e)), (''code'', code)]
                [(''Accept'', ''application/json'')] = Inr d
              \<and> get_prop d ''access_token'' = Inr tok
              \<and> axios_get client ''https://api.github.com/user''
                   [(''Authorization'', ''Bearer '' @ to_string tok)] = Inl (AxiosError q))"
  using assms
  by (auto simp: authCallback_try_def Let_def split: sum.splits option.splits dest: get_prop_error)

text \<open>
  Claim C8, as stated, fails: it has every failure that carries no provider-reported
  error answered with 500. When the provider cannot be reached, axios throws an error
  without a response; it is an axios error all the same, and the answer is 400 with an
  undefined body.
\<close>

theorem other_failure_500_counterexample:
  "fst (authCallback example_env no_response_client example_sign (JString ''abc''))
     = \<lparr>auth_status = 400, auth_json = JUndefined\<rparr>
   \<and> auth_status \<lparr>auth_status = 400, auth_json = JUndefined\<rparr> \<noteq> 500"
  by (simp add: authCallback_def authCallback_try_def no_response_client_def)

text \<open>
  Claim C8, amended. A failure of the token exchange or of the profile fetch that axios
  reports is answered with 400, the body being the provider's payload when the error
  carries a response and undefined when it carries none; a failure that is not an
  axios error is answered with 500 and the body \<open>{message: "There something wrong."}\<close>;
  and the handler gives no other answer than 200, 400 after an axios error, and 500
  after another error.
\<close>

theorem auth_error_responses:
  "(axios_post client ''htpps://github.com/login/oauth/access_token''
      [(''client_id'', env_value (clientId e)), (''client_secret'', env_value (clientSecret e)), (''code'', code)]
      [(''Accept'', ''application/json'')] = Inl (AxiosError p)
     \<longrightarrow> fst (authCallback e client sign code)
           = \<lparr>auth_status = 400, auth_json = (case p of Some payload \<Rightarrow> payload | None \<Rightarrow> JUndefined)\<rparr>)
   \<and> (axios_post client ''htpps://github.com/login/oauth/access_token''
      [(''client_id'', env_value (clientId e)), (''client_secret'', env_value (clientSecret e)), (''code'', code)]
      [(''Accept'', ''application/json'')] = Inr d
       \<and> get_prop d ''access_token'' = Inr tok
       \<and> axios_get client ''https://api.github.com/user'' [(''Authorization'', ''Bearer '' @ to_string tok)]
           = Inl (AxiosError p)
     \<longrightarrow> fst (authCallback e client sign code)
           = \<lparr>auth_status = 400, auth_json = (case p of Some payload \<Rightarrow> payload | None \<Rightarrow> JUndefined)\<rparr>)
   \<and> (fst (authCallback_try e client sign code) = Inl OtherError
     \<longrightarrow> fst (authCallback e client sign code)
           = \<lparr>auth_status = 500, auth_json = JObject [(''message'', JString ''There something wrong.'')]\<rparr>)
   \<and> (auth_status (fst (authCallback e client sign code)) = 200
      \<or> auth_status (fst (authCallback e client sign code)) = 400
         \<and> (\<exists>q. fst (authCallback_try e client sign code) = Inl (AxiosError q))
      \<or> auth_status (fst (authCallback e client sign code)) = 500
         \<and> fst (authCallback_try e client sign code) = Inl OtherError)"
proof -
  have a: "axios_post client ''htpps://github.com/login/oauth/access_token''
      [(''client_id'', env_value (clientId e)), (''client_secret'', env_value (clientSecret e)), (''code'', code)]
      [(''Accept'', ''application/json'')] = Inl (AxiosError p)
     \<longrightarrow> fst (authCallback e client sign code)
           = \<lparr>auth_status = 400, auth_json = (case p of Some payload \<Rightarrow> payload | None \<Rightarrow> JUndefined)\<rparr>"
    by (auto simp: catch_cases dest!: post_fails [where sign = sign] split: option.splits)
  have b: "axios_post client ''htpps://github.com/login/oauth/access_token''
      [(''client_id'', env_value (clientId e)), (''client_secret'', env_value (clientSecret e)), (''code'', code)]
      [(''Accept'', ''application/json'')] = Inr d
       \<and> get_prop d ''access_token'' = Inr tok
       \<and> axios_get client ''https://api.github.com/user'' [(''Authorization'', ''Bearer '' @ to_string tok)]
           = Inl (AxiosError p)
     \<longrightarrow> fst (authCallback e client sign code)
           = \<lparr>auth_status = 400, auth_json = (case p of Some payload \<Rightarrow> payload | None \<Rightarrow> JUndefined)\<rparr>"
    by (auto simp: catch_cases dest!: get_fails [where sign = sign] split: option.splits)
  have c: "fst (authCallback_try e client sign code) = Inl OtherError
     \<longrightarrow> fst (authCallback e client sign code)
           = \<lparr>auth_status = 500, auth_json = JObject [(''message'', JString ''There something wrong.'')]\<rparr>"
    by (simp add: catch_cases)
  have d: "auth_status (fst (authCallback e client sign code)) = 200
      \<or> auth_status (fst (authCallback e client sign code)) = 400
         \<and> (\<exists>q. fst (authCallback_try e client sign code) = Inl (AxiosError q))
      \<or> auth_status (fst (authCallback e client sign code)) = 500
         \<and> fst (authCallback_try e client sign code) = Inl OtherError"
    by (simp add: catch_cases split: sum.splits failure.splits option.splits)
  from a b c d show ?thesis by blast
qed

theorem auth_error_responses_witness:
  "fst (authCallback example_env rejecting_client example_sign (JString ''abc''))
     = \<lparr>auth_status = 400, auth_json = JObject [(''error'', JString ''bad_verification_code'')]\<rparr>
   \<and> fst (authCallback example_env bad_credentials_client example_sign (JString ''abc''))
     = \<lparr>auth_status = 400, auth_json = JObject [(''message'', JString ''Bad credentials'')]\<rparr>
   \<and> fst (authCallback_try example_env null_client example_sign (JString ''abc'')) = Inl OtherError
   \<and> fst (authCallback example_env null_client example_sign (JString ''abc''))
     = \<lparr>auth_status = 500, auth_json = JObject [(''message'', JString ''There something wrong.'')]\<rparr>"
proof -
  have a: "axios_post rejecting_client ''htpps://github.com/login/oauth/access_token''
      [(''client_id'', env_value (clientId example_env)), (''client_secret'', env_value (clientSecret example_env)),
       (''code'', JString ''abc'')]
      [(''Accept'', ''application/json'')]
     = Inl (AxiosError (Some (JObject [(''error'', JString ''bad_verification_code'')])))"
    by (simp add: rejecting_client_def)
  have b: "axios_post bad_credentials_client ''htpps://github.com/login/oauth/access_token''
      [(''client_id'', env_value (clientId example_env)), (''client_secret'', env_value (clientSecret example_env)),
       (''code'', JString ''abc'')]
      [(''Accept'', ''application/json'')] = Inr (JObject [(''error'', JString ''bad_verification_code'')])
     \<and> get_prop (JObject [(''error'', JString ''bad_verification_code'')]) ''access_token'' = Inr JUndefined
     \<and> axios_get bad_credentials_client ''https://api.github.com/user''
         [(''Authorization'', ''Bearer '' @ to_string JUndefined)]
         = Inl (AxiosError (Some (JObject [(''message'', JString ''Bad credentials'')])))"
    by (simp add: bad_credentials_client_def)
  have c: "fst (authCallback_try example_env null_client example_sign (JString ''abc'')) = Inl OtherError"
    by (simp add: authCallback_try_def null_client_def)
  show ?thesis
    using a b c
      auth_error_responses [of rejecting_client example_env "JString ''abc''"
        "Some (JObject [(''error'', JString ''bad_verification_code'')])" example_sign]
      auth_error_responses [of bad_credentials_client example_env "JString ''abc''"
        "Some (JObject [(''message'', JString ''Bad credentials'')])" example_sign
        "JObject [(''error'', JString ''bad_verification_code'')]" JUndefined]
      auth_error_responses [of null_client example_env "JString ''abc''" None example_sign]
    by simp
qed

end
